theory Spec2Isabelle
  imports Main "HOL-Library.Char_ord" "HOL-Library.List_Lexorder"
begin

section \<open>Data model of the replication layer\<close>

text \<open>
  Timestamps: an ISO-8601 \<open>updated_at\<close> string is represented by the number that
  \<open>new Date(s).getTime()\<close> gives for it (milliseconds since the epoch). A property that
  is absent from a JavaScript object is \<open>None\<close>.
\<close>

type_synonym timestamp = int

text \<open>The three replicated collections (the union of string literals in the source).\<close>

datatype collectionName = territories | houses | assignments

text \<open>
  The properties every replicated object has: the tenant, the ordering signal, and the
  remaining properties by name (including the local store's internal ones such as
  \<open>_rev\<close>, \<open>_attachments\<close> and \<open>_meta\<close>).
\<close>

record props =
  congregation_id :: "string option"
  updated_at :: "timestamp option"
  other :: "string \<rightharpoonup> string"

text \<open>\<open>ReplicationDoc\<close>: a row or a stored document; its \<open>id\<close> is a string.\<close>

record doc = props +
  doc_id :: string

text \<open>\<open>Record<string, unknown>\<close> as it arrives on the realtime feed: \<open>id\<close> may be missing.\<close>

record unknown_doc = props +
  id_prop :: "string option"

section \<open>Local Document Store\<close>

text \<open>
  The error value with which the remote store answers a failed call: its message, and
  whether the value is an instance of \<open>Error\<close>.
\<close>

record remote_error =
  message :: string
  instance_of_Error :: bool

text \<open>
  What a store operation or a remote call throws. The local store's errors are the ones
  of its contract (a write the storage engine refuses, a duplicate primary key, a storage
  engine that cannot be initialised).
\<close>

datatype thrown = RemoteError remote_error | ValidationError | ConflictError | StorageUnavailable

text \<open>\<open>error instanceof Error ? error.message : 'Unknown error'\<close>\<close>

definition error_text :: "remote_error \<Rightarrow> string" where
  "error_text e = (if instance_of_Error e then message e else ''Unknown error'')"

text \<open>
  \<open>RxCollection\<close>: the stored documents, in the order in which \<open>find\<close> returns them
  (the order of the primary key, so an insert places the document by its \<open>id\<close>), and the
  writes the storage engine accepts (schema and quota; a refused write throws).
\<close>

record collection =
  docs :: "doc list"
  accepts :: "doc \<Rightarrow> bool"

definition findOne :: "collection \<Rightarrow> string \<Rightarrow> doc option" where
  "findOne coll i = find (\<lambda>d. doc_id d = i) (docs coll)"

definition insert_doc :: "collection \<Rightarrow> doc \<Rightarrow> thrown + collection" where
  "insert_doc coll d =
     (if \<not> accepts coll d then Inl ValidationError
      else if findOne coll (doc_id d) \<noteq> None then Inl ConflictError
      else Inr (coll\<lparr>docs := insort_key doc_id d (docs coll)\<rparr>))"

text \<open>
  \<open>$set\<close> assigns every property that the given object has and keeps the others.
\<close>

definition set_fields :: "doc \<Rightarrow> doc \<Rightarrow> doc" where
  "set_fields existing d =
     \<lparr>congregation_id =
        (case congregation_id d of Some v \<Rightarrow> Some v | None \<Rightarrow> congregation_id existing),
      updated_at = (case updated_at d of Some v \<Rightarrow> Some v | None \<Rightarrow> updated_at existing),
      other = other existing ++ other d,
      doc_id = doc_id d\<rparr>"

text \<open>\<open>existing.update({ $set: doc })\<close>\<close>

definition update_doc :: "collection \<Rightarrow> doc \<Rightarrow> doc \<Rightarrow> thrown + collection" where
  "update_doc coll existing d =
     (if \<not> accepts coll (set_fields existing d) then Inl ValidationError
      else Inr (coll\<lparr>docs :=
             map (\<lambda>x. if doc_id x = doc_id existing then set_fields existing d else x)
               (docs coll)\<rparr>))"

text \<open>\<open>existing.remove()\<close>\<close>

definition remove_doc :: "collection \<Rightarrow> doc \<Rightarrow> collection" where
  "remove_doc coll existing =
     coll\<lparr>docs := filter (\<lambda>x. doc_id x \<noteq> doc_id existing) (docs coll)\<rparr>"

text \<open>\<open>collection.find({ selector: { congregation_id: congregationId } }).exec()\<close>\<close>

definition find_by_congregation :: "collection \<Rightarrow> string \<Rightarrow> doc list" where
  "find_by_congregation coll cid = filter (\<lambda>d. congregation_id d = Some cid) (docs coll)"

section \<open>Replication state and the remote store\<close>

record ReplicationState =
  isActive :: bool
  lastSync :: "timestamp option"
  pendingChanges :: nat
  error :: "string option"

text \<open>The calls made to the remote store, in the order in which they are issued.\<close>

datatype request =
  Select collectionName string "timestamp option"
  | Upsert collectionName "doc list"

text \<open>
  The module-level map \<open>replicationStates\<close>, the local database, and the remote store:
  its tables, the error (if any) with which it answers a select or an upsert on a table,
  and the requests it has received.
\<close>

record world =
  replicationStates :: "collectionName \<rightharpoonup> ReplicationState"
  db :: "collectionName \<Rightarrow> collection"
  tables :: "collectionName \<Rightarrow> doc list"
  select_fails :: "collectionName \<Rightarrow> remote_error option"
  upsert_fails :: "collectionName \<Rightarrow> remote_error option"
  requests :: "request list"

definition initial_state :: ReplicationState where
  "initial_state = \<lparr>isActive = False, lastSync = None, pendingChanges = 0, error = None\<rparr>"

text \<open>
  \<open>getReplicationState\<close> creates the entry on first use and returns the shared object;
  \<open>lookup_state\<close> is the object it returns, \<open>getReplicationState\<close> the map afterwards.
\<close>

definition lookup_state ::
  "(collectionName \<rightharpoonup> ReplicationState) \<Rightarrow> collectionName \<Rightarrow> ReplicationState" where
  "lookup_state rs c = (case rs c of None \<Rightarrow> initial_state | Some s \<Rightarrow> s)"

definition getReplicationState ::
  "(collectionName \<rightharpoonup> ReplicationState) \<Rightarrow> collectionName
     \<Rightarrow> (collectionName \<rightharpoonup> ReplicationState)" where
  "getReplicationState rs c = (if rs c = None then rs(c \<mapsto> initial_state) else rs)"

text \<open>An assignment to a field of the shared state object of a collection.\<close>

definition assign_state ::
  "collectionName \<Rightarrow> (ReplicationState \<Rightarrow> ReplicationState) \<Rightarrow> world \<Rightarrow> world" where
  "assign_state c f w =
     w\<lparr>replicationStates := (replicationStates w)(c \<mapsto> f (lookup_state (replicationStates w) c))\<rparr>"

text \<open>
  The remote query of pull: rows of the tenant, newer than \<open>since\<close> when it is given,
  ordered by \<open>updated_at\<close> ascending (rows without one last).
\<close>

definition time_or_zero :: "timestamp option \<Rightarrow> timestamp" where
  "time_or_zero t = (case t of Some v \<Rightarrow> v | None \<Rightarrow> 0)"

definition order_by_updated_at :: "doc list \<Rightarrow> doc list" where
  "order_by_updated_at rows =
     sort_key (\<lambda>r. time_or_zero (updated_at r)) (filter (\<lambda>r. updated_at r \<noteq> None) rows)
     @ filter (\<lambda>r. updated_at r = None) rows"

definition gt_since :: "timestamp option \<Rightarrow> doc \<Rightarrow> bool" where
  "gt_since since r =
     (case since of
        None \<Rightarrow> True
      | Some s \<Rightarrow> (case updated_at r of Some t \<Rightarrow> s < t | None \<Rightarrow> False))"

definition select_rows :: "doc list \<Rightarrow> string \<Rightarrow> timestamp option \<Rightarrow> doc list" where
  "select_rows rows cid since =
     order_by_updated_at
       (filter (\<lambda>r. congregation_id r = Some cid \<and> gt_since since r) rows)"

section \<open>Pull\<close>

text \<open>\<open>serverTime > localTime\<close>; a missing \<open>updated_at\<close> gives \<open>NaN\<close>, which compares false.\<close>

definition server_newer :: "doc \<Rightarrow> doc \<Rightarrow> bool" where
  "server_newer d existing =
     (case updated_at d of
        None \<Rightarrow> False
      | Some serverTime \<Rightarrow>
          (case updated_at existing of None \<Rightarrow> False | Some localTime \<Rightarrow> localTime < serverTime))"

text \<open>The body of the \<open>try\<close> block inside the loop of \<open>pullFromSupabase\<close>.\<close>

definition pull_doc :: "collection \<Rightarrow> doc \<Rightarrow> thrown + collection" where
  "pull_doc coll d =
     (case findOne coll (doc_id d) of
        Some existing \<Rightarrow>
          (if server_newer d existing then update_doc coll existing d else Inr coll)
      | None \<Rightarrow> insert_doc coll d)"

text \<open>The loop: an error of one document is logged and the loop goes on.\<close>

fun pull_docs :: "collection \<Rightarrow> doc list \<Rightarrow> collection" where
  "pull_docs coll [] = coll"
| "pull_docs coll (d # ds) =
     pull_docs (case pull_doc coll d of Inl err \<Rightarrow> coll | Inr coll' \<Rightarrow> coll') ds"

definition pullFromSupabase ::
  "world \<Rightarrow> collectionName \<Rightarrow> string \<Rightarrow> timestamp option \<Rightarrow> (thrown + nat) \<times> world" where
  "pullFromSupabase w collectionName congregationId since =
     (let w1 = assign_state collectionName (\<lambda>s. s\<lparr>isActive := True\<rparr>) w;
          w2 = w1\<lparr>requests := requests w1 @ [Select collectionName congregationId since]\<rparr>
      in case select_fails w2 collectionName of
           Some e \<Rightarrow>
             (Inl (RemoteError e),
              assign_state collectionName (\<lambda>s. s\<lparr>isActive := False, error := Some (error_text e)\<rparr>) w2)
         | None \<Rightarrow>
             (let data = select_rows (tables w2 collectionName) congregationId since
              in if data = [] then
                   (Inr 0, assign_state collectionName (\<lambda>s. s\<lparr>isActive := False\<rparr>) w2)
                 else
                   (let w3 = w2\<lparr>db := (db w2)
                                 (collectionName := pull_docs (db w2 collectionName) data)\<rparr>;
                        w4 = (case updated_at (last data) of
                                Some lastUpdated \<Rightarrow>
                                  assign_state collectionName
                                    (\<lambda>s. s\<lparr>lastSync := Some lastUpdated\<rparr>) w3
                              | None \<Rightarrow> w3)
                    in (Inr (length data),
                        assign_state collectionName (\<lambda>s. s\<lparr>isActive := False\<rparr>) w4))))"

section \<open>Push\<close>

text \<open>
  \<open>since ? docs.filter(doc => new Date(doc.updated_at || 0) > new Date(since)) : docs\<close>
\<close>

definition docsToSync :: "timestamp option \<Rightarrow> doc list \<Rightarrow> doc list" where
  "docsToSync since ds =
     (case since of
        Some s \<Rightarrow> filter (\<lambda>d. s < time_or_zero (updated_at d)) ds
      | None \<Rightarrow> ds)"

text \<open>\<open>toJSON\<close> and the removal of the local store's internal fields.\<close>

definition to_record :: "doc \<Rightarrow> doc" where
  "to_record d =
     d\<lparr>other := (\<lambda>k. if k \<in> {''_rev'', ''_attachments'', ''_meta''} then None else other d k)\<rparr>"

text \<open>Upsert by primary key at the remote store: replace the row with that id, or add it.\<close>

definition upsert_row :: "doc list \<Rightarrow> doc \<Rightarrow> doc list" where
  "upsert_row rows r =
     (if \<exists>x \<in> set rows. doc_id x = doc_id r
      then map (\<lambda>x. if doc_id x = doc_id r then r else x) rows
      else rows @ [r])"

definition pushToSupabase ::
  "world \<Rightarrow> collectionName \<Rightarrow> string \<Rightarrow> (thrown + nat) \<times> world" where
  "pushToSupabase w collectionName congregationId =
     (let w1 = assign_state collectionName (\<lambda>s. s\<lparr>isActive := True\<rparr>) w;
          since = lastSync (lookup_state (replicationStates w1) collectionName);
          ds = find_by_congregation (db w1 collectionName) congregationId;
          toSync = docsToSync since ds
      in if toSync = [] then
           (Inr 0, assign_state collectionName (\<lambda>s. s\<lparr>isActive := False\<rparr>) w1)
         else
           (let records = map to_record toSync;
                w2 = w1\<lparr>requests := requests w1 @ [Upsert collectionName records]\<rparr>
            in case upsert_fails w2 collectionName of
                 Some e \<Rightarrow>
                   (Inl (RemoteError e),
                    assign_state collectionName
                      (\<lambda>s. s\<lparr>isActive := False, error := Some (error_text e)\<rparr>) w2)
               | None \<Rightarrow>
                   (let w3 = w2\<lparr>tables := (tables w2)
                                 (collectionName :=
                                    foldl upsert_row (tables w2 collectionName) records)\<rparr>;
                        w4 = (case updated_at (last records) of
                                Some t \<Rightarrow>
                                  assign_state collectionName (\<lambda>s. s\<lparr>lastSync := Some t\<rparr>) w3
                              | None \<Rightarrow> w3)
                    in (Inr (length records),
                        assign_state collectionName
                          (\<lambda>s. s\<lparr>pendingChanges := 0, isActive := False\<rparr>) w4))))"

section \<open>Bidirectional sync and the orchestrator\<close>

record sync_result =
  pulled :: nat
  pushed :: nat

definition syncCollection ::
  "world \<Rightarrow> collectionName \<Rightarrow> string \<Rightarrow> (thrown + sync_result) \<times> world" where
  "syncCollection w collectionName congregationId =
     (let w0 = w\<lparr>replicationStates := getReplicationState (replicationStates w) collectionName\<rparr>;
          since = lastSync (lookup_state (replicationStates w0) collectionName)
      in case pullFromSupabase w0 collectionName congregationId since of
           (Inl err, w1) \<Rightarrow> (Inl err, w1)
         | (Inr n, w1) \<Rightarrow>
             (case pushToSupabase w1 collectionName congregationId of
                (Inl err, w2) \<Rightarrow> (Inl err, w2)
              | (Inr m, w2) \<Rightarrow> (Inr \<lparr>pulled = n, pushed = m\<rparr>, w2)))"



section \<open>Realtime feed\<close>

datatype RealtimeEventType = INSERT | UPDATE | DELETE

record RealtimePayload =
  eventType :: RealtimeEventType
  new :: unknown_doc
  old :: "string option"

text \<open>The object handed to \<open>$set\<close> or \<open>insert\<close> once its \<open>id\<close> is known to be a string.\<close>

definition as_doc :: "unknown_doc \<Rightarrow> string \<Rightarrow> doc" where
  "as_doc u i =
     \<lparr>congregation_id = congregation_id u, updated_at = updated_at u, other = other u,
      doc_id = i\<rparr>"

text \<open>
  The callback that \<open>initializeReplication\<close> passes to \<open>subscribeToChanges\<close> for one
  collection. An \<open>id\<close> that is missing, not a string or empty drops the event; an error
  of the local store is logged.
\<close>

definition realtime_handler :: "collection \<Rightarrow> RealtimePayload \<Rightarrow> collection" where
  "realtime_handler coll payload =
     (if eventType payload = INSERT \<or> eventType payload = UPDATE then
        (case id_prop (new payload) of
           None \<Rightarrow> coll
         | Some docId \<Rightarrow>
             if docId = [] then coll
             else
               (case (case findOne coll docId of
                        Some existing \<Rightarrow> update_doc coll existing (as_doc (new payload) docId)
                      | None \<Rightarrow> insert_doc coll (as_doc (new payload) docId)) of
                  Inl err \<Rightarrow> coll
                | Inr coll' \<Rightarrow> coll'))
      else if eventType payload = DELETE then
        (case old payload of
           None \<Rightarrow> coll
         | Some oldId \<Rightarrow>
             (case findOne coll oldId of
                Some existing \<Rightarrow> remove_doc coll existing
              | None \<Rightarrow> coll))
      else coll)"

text \<open>
  \<open>subscribeToChanges\<close> registers a channel on the table with the filter
  \<open>congregation_id=eq.<congregationId>\<close>. The remote store delivers a change of a row to
  a channel when the table and the filter match the row. (The shape test
  \<open>isValidPayload\<close> rejects values that are not a \<open>RealtimePayload\<close>; the type of
  \<open>realtime_handler\<close> excludes them.)
\<close>

record channel =
  channel_name :: string
  table :: collectionName
  filter_column :: string
  filter_value :: string

fun table_name :: "collectionName \<Rightarrow> string" where
  "table_name territories = ''territories''"
| "table_name houses = ''houses''"
| "table_name assignments = ''assignments''"

definition subscribeToChanges :: "collectionName \<Rightarrow> string \<Rightarrow> channel" where
  "subscribeToChanges collectionName congregationId =
     \<lparr>channel_name = table_name collectionName @ ''_changes'',
      table = collectionName,
      filter_column = ''congregation_id'',
      filter_value = congregationId\<rparr>"

record change =
  change_table :: collectionName
  change_type :: RealtimeEventType
  row :: doc

definition delivered :: "channel \<Rightarrow> change \<Rightarrow> bool" where
  "delivered ch chg =
     (change_table chg = table ch \<and>
      filter_column ch = ''congregation_id'' \<and>
      congregation_id (row chg) = Some (filter_value ch))"

section \<open>Opening the local database\<close>

text \<open>
  \<open>RxDatabase\<close>: the instance (told apart by a handle) and the name it was created with.
  \<open>dbPromise\<close> is the module-level variable, holding the outcome of the creation;
  \<open>created\<close> counts the instances made, and \<open>storage_available\<close> says whether the
  storage engine can be initialised.
\<close>

record database =
  handle :: nat
  name :: string

record db_module =
  dbPromise :: "(thrown + database) option"
  created :: nat
  storage_available :: bool

definition initDatabase :: "db_module \<Rightarrow> string \<Rightarrow> (thrown + database) \<times> db_module" where
  "initDatabase m congregationId =
     (case dbPromise m of
        Some p \<Rightarrow> (p, m)
      | None \<Rightarrow>
          (let p = (if storage_available m
                    then Inr \<lparr>handle = created m, name = ''territory_mapper_'' @ congregationId\<rparr>
                    else Inl StorageUnavailable)
           in (p, m\<lparr>dbPromise := Some p, created := Suc (created m)\<rparr>)))"

section \<open>Derived notions and example inputs\<close>

text \<open>The batch that push transmits: the \<open>records\<close> of \<open>pushToSupabase\<close>.\<close>

definition to_push :: "world \<Rightarrow> collectionName \<Rightarrow> string \<Rightarrow> doc list" where
  "to_push w c cid =
     map to_record
       (docsToSync (lastSync (lookup_state (replicationStates w) c))
          (find_by_congregation (db w c) cid))"

text \<open>Documents, collections and worlds for the examples (one collection populated).\<close>

definition mk_doc :: "string \<Rightarrow> string \<Rightarrow> timestamp \<Rightarrow> string \<Rightarrow> doc" where
  "mk_doc i cid t v =
     \<lparr>congregation_id = Some cid, updated_at = Some t, other = [''name'' \<mapsto> v], doc_id = i\<rparr>"

definition mk_collection :: "doc list \<Rightarrow> collection" where
  "mk_collection ds = \<lparr>docs = ds, accepts = (\<lambda>d. True)\<rparr>"

definition mk_world :: "doc list \<Rightarrow> doc list \<Rightarrow> timestamp option \<Rightarrow> world" where
  "mk_world local remote cursor =
     \<lparr>replicationStates = [houses \<mapsto> initial_state\<lparr>lastSync := cursor\<rparr>],
      db = (\<lambda>c. mk_collection (if c = houses then local else [])),
      tables = (\<lambda>c. if c = houses then remote else []),
      select_fails = (\<lambda>c. None),
      upsert_fails = (\<lambda>c. None),
      requests = []\<rparr>"


text \<open>One iteration of the loop of pull.\<close>

definition pull_step :: "collection \<Rightarrow> doc \<Rightarrow> collection" where
  "pull_step coll d = (case pull_doc coll d of Inl err \<Rightarrow> coll | Inr coll' \<Rightarrow> coll')"


text \<open>A realtime update whose document is older than the local copy.\<close>

definition stale_event :: RealtimePayload where
  "stale_event =
     \<lparr>eventType = UPDATE,
      new = \<lparr>congregation_id = Some ''A'', updated_at = Some 3,
             other = [''name'' \<mapsto> ''remote''], id_prop = Some ''a''\<rparr>,
      old = None\<rparr>"

text \<open>The module before any database was opened.\<close>

definition fresh_module :: db_module where
  "fresh_module = \<lparr>dbPromise = None, created = 0, storage_available = True\<rparr>"

text \<open>
  The number of documents of a batch that the loop of pull inserts, and the number it
  overwrites: the two counts that the specification of pull's result names.
\<close>

definition inserted_by :: "collection \<Rightarrow> doc \<Rightarrow> bool" where
  "inserted_by coll d = (findOne coll (doc_id d) = None \<and> accepts coll d)"

definition updated_by :: "collection \<Rightarrow> doc \<Rightarrow> bool" where
  "updated_by coll d =
     (case findOne coll (doc_id d) of
        None \<Rightarrow> False
      | Some existing \<Rightarrow> server_newer d existing \<and> accepts coll (set_fields existing d))"

fun inserted_count :: "collection \<Rightarrow> doc list \<Rightarrow> nat" where
  "inserted_count coll [] = 0"
| "inserted_count coll (d # ds) =
     (if inserted_by coll d then 1 else 0) + inserted_count (pull_step coll d) ds"

fun updated_count :: "collection \<Rightarrow> doc list \<Rightarrow> nat" where
  "updated_count coll [] = 0"
| "updated_count coll (d # ds) =
     (if updated_by coll d then 1 else 0) + updated_count (pull_step coll d) ds"



text \<open>
  Worlds for the examples: one local edit at time \<open>t\<close> next to one newer remote row;
  a remote store that fails every select on \<open>houses\<close>; two tenants in one remote table.
\<close>

definition sync_world :: "timestamp \<Rightarrow> world" where
  "sync_world t =
     mk_world [mk_doc ''l'' ''A'' t ''edit''] [mk_doc ''r'' ''A'' 9 ''remote''] (Some 1)"


definition two_tenant_world :: world where
  "two_tenant_world =
     mk_world [mk_doc ''l'' ''A'' 5 ''mine'', mk_doc ''m'' ''B'' 6 ''theirs'']
       [mk_doc ''r'' ''A'' 9 ''remote'', mk_doc ''q'' ''B'' 7 ''other'',
        mk_doc ''s'' ''B'' 12 ''late''] None"

definition tenant_B_db :: "collectionName \<Rightarrow> collection" where
  "tenant_B_db =
     (\<lambda>c. mk_collection [mk_doc ''m'' ''B'' 6 ''theirs'', mk_doc ''n'' ''B'' 15 ''fresh''])"

section \<open>Basic facts about the operations\<close>

lemma lookup_assign [simp]:
  "lookup_state (replicationStates (assign_state c f w)) c = f (lookup_state (replicationStates w) c)"
  by (simp add: assign_state_def lookup_state_def)

lemma assign_other [simp]:
  "c' \<noteq> c \<Longrightarrow> replicationStates (assign_state c f w) c' = replicationStates w c'"
  by (simp add: assign_state_def)

lemma assign_sel [simp]:
  "db (assign_state c f w) = db w" "tables (assign_state c f w) = tables w"
  "select_fails (assign_state c f w) = select_fails w"
  "upsert_fails (assign_state c f w) = upsert_fails w"
  "requests (assign_state c f w) = requests w"
  by (simp_all add: assign_state_def)

lemma to_record_sel [simp]:
  "doc_id (to_record d) = doc_id d" "congregation_id (to_record d) = congregation_id d"
  "updated_at (to_record d) = updated_at d"
  by (simp_all add: to_record_def)

lemma pull_fst:
  "fst (pullFromSupabase w c cid since) =
     (case select_fails w c of
        Some e \<Rightarrow> Inl (RemoteError e)
      | None \<Rightarrow> Inr (length (select_rows (tables w c) cid since)))"
  by (simp add: pullFromSupabase_def Let_def split: option.splits)

lemma pull_requests:
  "requests (snd (pullFromSupabase w c cid since)) = requests w @ [Select c cid since]"
  by (simp add: pullFromSupabase_def Let_def split: option.splits)

lemma pull_db:
  "db (snd (pullFromSupabase w c cid since)) =
     (db w)(c := (if select_fails w c = None
                  then pull_docs (db w c) (select_rows (tables w c) cid since)
                  else db w c))"
  by (auto simp add: pullFromSupabase_def Let_def split: option.splits)


lemma pull_lastSync:
  "lastSync (lookup_state (replicationStates (snd (pullFromSupabase w c cid since))) c) =
     (if select_fails w c = None \<and> select_rows (tables w c) cid since \<noteq> []
      then (case updated_at (last (select_rows (tables w c) cid since)) of
              Some t \<Rightarrow> Some t
            | None \<Rightarrow> lastSync (lookup_state (replicationStates w) c))
      else lastSync (lookup_state (replicationStates w) c))"
  by (simp add: pullFromSupabase_def Let_def split: option.splits)


lemma push_fst:
  "fst (pushToSupabase w c cid) =
     (if to_push w c cid = [] then Inr 0
      else (case upsert_fails w c of
              Some e \<Rightarrow> Inl (RemoteError e)
            | None \<Rightarrow> Inr (length (to_push w c cid))))"
  by (simp add: pushToSupabase_def to_push_def Let_def split: option.splits)

lemma push_requests:
  "requests (snd (pushToSupabase w c cid)) =
     requests w @ (if to_push w c cid = [] then [] else [Upsert c (to_push w c cid)])"
  by (simp add: pushToSupabase_def to_push_def Let_def split: option.splits)


lemma push_lastSync:
  "lastSync (lookup_state (replicationStates (snd (pushToSupabase w c cid))) c) =
     (if to_push w c cid \<noteq> [] \<and> upsert_fails w c = None
      then (case updated_at (last (to_push w c cid)) of
              Some t \<Rightarrow> Some t
            | None \<Rightarrow> lastSync (lookup_state (replicationStates w) c))
      else lastSync (lookup_state (replicationStates w) c))"
  by (simp add: pushToSupabase_def to_push_def Let_def split: option.splits)

section \<open>Realtime deletes\<close>

text \<open>
  C6. A delete event carrying id \<open>X\<close> removes the local document with id \<open>X\<close> and
  nothing else, whatever the \<open>updated_at\<close> of the local copy: no timestamp is compared.
\<close>

theorem delete_always_wins:
  assumes "eventType payload = DELETE" and "old payload = Some X"
  shows "docs (realtime_handler coll payload) = filter (\<lambda>d. doc_id d \<noteq> X) (docs coll)
         \<and> findOne (realtime_handler coll payload) X = None"
proof (cases "findOne coll X")
  case None
  then have "\<forall>d \<in> set (docs coll). doc_id d \<noteq> X"
    by (auto simp: findOne_def find_None_iff)
  then have "filter (\<lambda>d. doc_id d \<noteq> X) (docs coll) = docs coll"
    by (simp add: filter_id_conv)
  with None assms show ?thesis
    by (simp add: realtime_handler_def)
next
  case (Some existing)
  then have "doc_id existing = X"
    by (auto simp: findOne_def dest: find_Some_iff[THEN iffD1])
  with Some assms show ?thesis
    by (auto simp: realtime_handler_def remove_doc_def findOne_def find_None_iff)
qed

theorem delete_always_wins_witness:
  "docs (realtime_handler
           (mk_collection [mk_doc ''x'' ''A'' 100 ''local'', mk_doc ''y'' ''A'' 1 ''kept''])
           \<lparr>eventType = DELETE,
            new = \<lparr>congregation_id = None, updated_at = None, other = Map.empty,
                   id_prop = None\<rparr>,
            old = Some ''x''\<rparr>)
   = [mk_doc ''y'' ''A'' 1 ''kept'']"
  using delete_always_wins [of
      "\<lparr>eventType = DELETE,
        new = \<lparr>congregation_id = None, updated_at = None, other = Map.empty, id_prop = None\<rparr>,
        old = Some ''x''\<rparr>"
      "''x''"
      "mk_collection [mk_doc ''x'' ''A'' 100 ''local'', mk_doc ''y'' ''A'' 1 ''kept'']"]
  by (simp add: mk_collection_def mk_doc_def)

section \<open>The loop of pull\<close>
















section \<open>Newer-wins pull\<close>




section \<open>Realtime inserts and updates\<close>

text \<open>
  C3. The realtime callback does not apply the newer-wins test of pull. With a local
  document \<open>a\<close> updated at 5 and an update event for \<open>a\<close> whose document was updated
  at 3, the callback overwrites the local document with the older one, while the loop
  body of pull, given the same document, keeps the local one.
\<close>

theorem realtime_overwrites_newer_local:
  "docs (realtime_handler (mk_collection [mk_doc ''a'' ''A'' 5 ''local'']) stale_event)
     = [mk_doc ''a'' ''A'' 3 ''remote'']
   \<and> pull_doc (mk_collection [mk_doc ''a'' ''A'' 5 ''local'']) (mk_doc ''a'' ''A'' 3 ''remote'')
     = Inr (mk_collection [mk_doc ''a'' ''A'' 5 ''local''])"
  by (simp add: realtime_handler_def stale_event_def mk_collection_def mk_doc_def findOne_def
      update_doc_def set_fields_def as_doc_def pull_doc_def server_newer_def)

section \<open>The cursor after push\<close>

text \<open>
  C4. Push sets the cursor to the \<open>updated_at\<close> of the last record of the batch, in
  the order in which the local query returns the documents, not to the maximum. With
  local documents \<open>a\<close> (updated at 5) and \<open>b\<close> (updated at 3) and no cursor, both are
  pushed and the cursor becomes 3.
\<close>

theorem push_cursor_is_last_not_max:
  "fst (pushToSupabase (mk_world [mk_doc ''a'' ''A'' 5 ''x'', mk_doc ''b'' ''A'' 3 ''y''] [] None)
          houses ''A'') = Inr 2
   \<and> map updated_at
        (to_push (mk_world [mk_doc ''a'' ''A'' 5 ''x'', mk_doc ''b'' ''A'' 3 ''y''] [] None)
           houses ''A'') = [Some 5, Some 3]
   \<and> lastSync (lookup_state (replicationStates (snd (pushToSupabase
          (mk_world [mk_doc ''a'' ''A'' 5 ''x'', mk_doc ''b'' ''A'' 3 ''y''] [] None)
          houses ''A''))) houses) = Some 3"
  unfolding push_fst push_lastSync
  by (simp add: to_push_def mk_world_def mk_collection_def mk_doc_def
      lookup_state_def initial_state_def find_by_congregation_def docsToSync_def to_record_def)

section \<open>The result of pull\<close>

text \<open>
  C5, as the code has it. A pull whose remote query succeeds returns the number of rows
  that the query returned, whether each was inserted, overwrote the local copy, was
  discarded because the local copy won, or failed to be written; it is 0 when the query
  returns no row.
\<close>

theorem pull_returns_rows_fetched:
  "select_fails w c = None \<Longrightarrow>
   fst (pullFromSupabase w c cid since) = Inr (length (select_rows (tables w c) cid since))"
  by (simp add: pull_fst)

theorem pull_returns_rows_fetched_witness:
  "fst (pullFromSupabase
          (mk_world [mk_doc ''a'' ''A'' 5 ''local'']
             [mk_doc ''a'' ''A'' 3 ''remote'', mk_doc ''b'' ''A'' 4 ''new'',
              mk_doc ''c'' ''B'' 4 ''else''] None)
          houses ''A'' None) = Inr 2"
  using pull_returns_rows_fetched [of
      "mk_world [mk_doc ''a'' ''A'' 5 ''local'']
         [mk_doc ''a'' ''A'' 3 ''remote'', mk_doc ''b'' ''A'' 4 ''new'',
          mk_doc ''c'' ''B'' 4 ''else''] None"
      houses "''A''" None]
  by (simp add: mk_world_def mk_doc_def select_rows_def order_by_updated_at_def gt_since_def)

text \<open>
  The count of inserted plus overwritten documents is not what pull returns: a single
  remote row that loses the timestamp comparison is counted, and the local store is
  left as it was.
\<close>

theorem pull_count_counterexample:
  "fst (pullFromSupabase
          (mk_world [mk_doc ''a'' ''A'' 5 ''local''] [mk_doc ''a'' ''A'' 3 ''remote''] None)
          houses ''A'' None) = Inr 1
   \<and> inserted_count (mk_collection [mk_doc ''a'' ''A'' 5 ''local''])
         [mk_doc ''a'' ''A'' 3 ''remote'']
     + updated_count (mk_collection [mk_doc ''a'' ''A'' 5 ''local''])
         [mk_doc ''a'' ''A'' 3 ''remote''] = 0
   \<and> db (snd (pullFromSupabase
          (mk_world [mk_doc ''a'' ''A'' 5 ''local''] [mk_doc ''a'' ''A'' 3 ''remote''] None)
          houses ''A'' None)) houses = mk_collection [mk_doc ''a'' ''A'' 5 ''local'']"
  unfolding pull_fst pull_db
  by (simp add: mk_world_def mk_collection_def mk_doc_def select_rows_def
      order_by_updated_at_def gt_since_def time_or_zero_def inserted_by_def updated_by_def
      findOne_def server_newer_def pull_doc_def)

section \<open>Opening the database for another tenant\<close>

text \<open>
  C9. \<open>initDatabase\<close> returns the cached instance whenever one exists, without looking
  at the tenant: after an open for tenant \<open>A\<close>, an open for tenant \<open>B\<close> returns the
  instance that was created for \<open>A\<close>, with the name namespaced by \<open>A\<close>.
\<close>

theorem initDatabase_other_tenant_gets_first_instance:
  "fst (initDatabase fresh_module ''A'') = Inr \<lparr>handle = 0, name = ''territory_mapper_A''\<rparr>
   \<and> fst (initDatabase (snd (initDatabase fresh_module ''A'')) ''B'')
     = Inr \<lparr>handle = 0, name = ''territory_mapper_A''\<rparr>"
  by (simp add: initDatabase_def fresh_module_def Let_def)

section \<open>Facts about sync\<close>

lemma lookup_getReplicationState [simp]:
  "lookup_state (getReplicationState rs c) c' = lookup_state rs c'"
  by (simp add: getReplicationState_def lookup_state_def)

lemma assign_state_ensured:
  "assign_state c f (w\<lparr>replicationStates := getReplicationState (replicationStates w) c\<rparr>)
     = assign_state c f w"
  by (simp add: assign_state_def getReplicationState_def lookup_state_def)

lemma pull_ensured:
  "pullFromSupabase (w\<lparr>replicationStates := getReplicationState (replicationStates w) c\<rparr>)
       c cid since
     = pullFromSupabase w c cid since"
  by (simp add: pullFromSupabase_def assign_state_ensured)

lemma syncCollection_unfold:
  "syncCollection w c cid =
     (case pullFromSupabase w c cid (lastSync (lookup_state (replicationStates w) c)) of
        (Inl err, w1) \<Rightarrow> (Inl err, w1)
      | (Inr n, w1) \<Rightarrow>
          (case pushToSupabase w1 c cid of
             (Inl err, w2) \<Rightarrow> (Inl err, w2)
           | (Inr m, w2) \<Rightarrow> (Inr \<lparr>pulled = n, pushed = m\<rparr>, w2)))"
  by (simp add: syncCollection_def pull_ensured Let_def)

lemma sync_requests:
  "requests (snd (syncCollection w c cid)) =
     requests w @ Select c cid (lastSync (lookup_state (replicationStates w) c))
       # (if select_fails w c = None \<and>
             to_push (snd (pullFromSupabase w c cid
                        (lastSync (lookup_state (replicationStates w) c)))) c cid \<noteq> []
          then [Upsert c (to_push (snd (pullFromSupabase w c cid
                        (lastSync (lookup_state (replicationStates w) c)))) c cid)]
          else [])"
proof -
  let ?s0 = "lastSync (lookup_state (replicationStates w) c)"
  obtain r1 w1 where p: "pullFromSupabase w c cid ?s0 = (r1, w1)"
    by (cases "pullFromSupabase w c cid ?s0")
  have r1: "r1 = (case select_fails w c of
        Some e \<Rightarrow> Inl (RemoteError e)
      | None \<Rightarrow> Inr (length (select_rows (tables w c) cid ?s0)))"
    using pull_fst [of w c cid ?s0] p by simp
  have q1: "requests w1 = requests w @ [Select c cid ?s0]"
    using pull_requests [of w c cid ?s0] p by simp
  obtain r2 w2 where q: "pushToSupabase w1 c cid = (r2, w2)"
    by (cases "pushToSupabase w1 c cid")
  have q2: "requests w2 = requests w1 @ (if to_push w1 c cid = [] then [] else [Upsert c (to_push w1 c cid)])"
    using push_requests [of w1 c cid] q by simp
  show ?thesis
    unfolding syncCollection_unfold p
    using r1 q q1 q2 by (auto split: option.splits sum.splits)
qed

lemma set_order_by [simp]: "set (order_by_updated_at rows) = set rows"
  by (auto simp: order_by_updated_at_def)

lemma select_rows_all:
  "set (select_rows rows cid None) = {r \<in> set rows. congregation_id r = Some cid}"
  by (auto simp: select_rows_def gt_since_def)

lemma select_rows_tenant:
  "r \<in> set (select_rows rows cid since) \<Longrightarrow> congregation_id r = Some cid"
  by (simp add: select_rows_def)

lemma select_rows_since:
  "r \<in> set (select_rows rows cid (Some t)) \<Longrightarrow> \<exists>u. updated_at r = Some u \<and> t < u"
  by (auto simp: select_rows_def gt_since_def split: option.splits)

lemma to_push_tenant:
  "x \<in> set (to_push w c cid) \<Longrightarrow> congregation_id x = Some cid"
  by (auto simp: to_push_def to_record_def find_by_congregation_def docsToSync_def
      split: option.splits)

lemma to_push_since:
  "x \<in> set (to_push w c cid) \<Longrightarrow> lastSync (lookup_state (replicationStates w) c) = Some s
     \<Longrightarrow> s < time_or_zero (updated_at x)"
  by (auto simp: to_push_def to_record_def docsToSync_def)

lemma pull_lastSync_advances:
  assumes "lastSync (lookup_state (replicationStates w) c) = Some t"
  shows "\<exists>t'. lastSync (lookup_state (replicationStates
                    (snd (pullFromSupabase w c cid (Some t)))) c) = Some t' \<and> t \<le> t'"
proof (cases "select_fails w c = None \<and> select_rows (tables w c) cid (Some t) \<noteq> []")
  case False
  with assms show ?thesis
    unfolding pull_lastSync by auto
next
  case True
  then have "last (select_rows (tables w c) cid (Some t))
               \<in> set (select_rows (tables w c) cid (Some t))"
    by simp
  then obtain u where "updated_at (last (select_rows (tables w c) cid (Some t))) = Some u"
      and "t < u"
    using select_rows_since by blast
  with True show ?thesis
    unfolding pull_lastSync by simp
qed

lemmas eval_defs =
  syncCollection_def pullFromSupabase_def pushToSupabase_def assign_state_def
  getReplicationState_def lookup_state_def initial_state_def select_rows_def
  order_by_updated_at_def gt_since_def time_or_zero_def find_by_congregation_def
  docsToSync_def pull_doc_def findOne_def insert_doc_def update_doc_def server_newer_def
  set_fields_def mk_world_def mk_collection_def mk_doc_def Let_def

section \<open>Pull before push, and the cursor of each\<close>

text \<open>
  The order of the remote calls of \<open>syncCollection\<close>: the select of pull is issued
  first, bounded by the \<open>lastSync\<close> read before the pull; the upsert of push, if any,
  follows it and is computed from the local store as the pull left it, bounded by the
  \<open>lastSync\<close> as it stands after the pull.
\<close>

lemma sync_pulls_then_pushes:
  "let s0 = lastSync (lookup_state (replicationStates w) c);
       w1 = snd (pullFromSupabase w c cid s0);
       s1 = lastSync (lookup_state (replicationStates w1) c);
       batch = map to_record (docsToSync s1 (find_by_congregation (db w1 c) cid))
   in requests (snd (syncCollection w c cid)) =
        requests w @ Select c cid s0
          # (if select_fails w c = None \<and> batch \<noteq> [] then [Upsert c batch] else [])
      \<and> s1 = (if select_fails w c = None \<and> select_rows (tables w c) cid s0 \<noteq> []
              then (case updated_at (last (select_rows (tables w c) cid s0)) of
                      Some t \<Rightarrow> Some t
                    | None \<Rightarrow> s0)
              else s0)"
proof -
  let ?s0 = "lastSync (lookup_state (replicationStates w) c)"
  let ?w1 = "snd (pullFromSupabase w c cid ?s0)"
  have "requests (snd (syncCollection w c cid)) =
          requests w @ Select c cid ?s0
            # (if select_fails w c = None \<and> to_push ?w1 c cid \<noteq> []
               then [Upsert c (to_push ?w1 c cid)] else [])"
    by (rule sync_requests)
  moreover have "lastSync (lookup_state (replicationStates ?w1) c) =
          (if select_fails w c = None \<and> select_rows (tables w c) cid ?s0 \<noteq> []
           then (case updated_at (last (select_rows (tables w c) cid ?s0)) of
                   Some t \<Rightarrow> Some t
                 | None \<Rightarrow> ?s0)
           else ?s0)"
    by (rule pull_lastSync)
  ultimately show ?thesis
    unfolding Let_def to_push_def by (intro conjI) assumption+
qed

text \<open>
  C2. Push does not use the cursor that was recorded before the pull. With cursor 1, one
  remote row updated at 9 and one local edit at 5, \<open>syncCollection\<close> pulls the row, which
  moves the cursor to 9, and then pushes nothing, although the local edit is newer than
  the cursor recorded before the pull and is among the documents that this cursor
  selects. A second \<open>syncCollection\<close> selects with the cursor 9 and again pushes
  nothing: the local edit never reaches the remote table.
\<close>

theorem sync_push_misses_local_edit:
  "lastSync (lookup_state (replicationStates (sync_world 5)) houses) = Some 1
   \<and> findOne (db (sync_world 5) houses) ''l'' = Some (mk_doc ''l'' ''A'' 5 ''edit'')
   \<and> fst (syncCollection (sync_world 5) houses ''A'') = Inr \<lparr>pulled = 1, pushed = 0\<rparr>
   \<and> requests (snd (syncCollection (sync_world 5) houses ''A'')) = [Select houses ''A'' (Some 1)]
   \<and> lastSync (lookup_state (replicationStates
         (snd (syncCollection (sync_world 5) houses ''A''))) houses) = Some 9
   \<and> mk_doc ''l'' ''A'' 5 ''edit''
       \<in> set (docsToSync (Some 1) (find_by_congregation
                (db (snd (pullFromSupabase (sync_world 5) houses ''A'' (Some 1))) houses) ''A''))
   \<and> fst (syncCollection (snd (syncCollection (sync_world 5) houses ''A'')) houses ''A'')
       = Inr \<lparr>pulled = 0, pushed = 0\<rparr>
   \<and> requests (snd (syncCollection (snd (syncCollection (sync_world 5) houses ''A'')) houses ''A''))
       = [Select houses ''A'' (Some 1), Select houses ''A'' (Some 9)]
   \<and> tables (snd (syncCollection (snd (syncCollection (sync_world 5) houses ''A'')) houses ''A''))
        houses = [mk_doc ''r'' ''A'' 9 ''remote'']"
  by (simp add: sync_world_def eval_defs)

section \<open>Partial-failure isolation\<close>



























section \<open>Tenant isolation\<close>

text \<open>
  C8. For distinct tenants \<open>A\<close> and \<open>B\<close>: the only remote read of a pull for \<open>A\<close> is a
  select filtered by \<open>A\<close>, no row it returns belongs to \<open>B\<close>, and the local store is
  changed by applying exactly those rows; a push for \<open>A\<close> transmits, in at most one
  upsert, only documents of \<open>A\<close>; and the channel that \<open>subscribeToChanges\<close> registers
  for \<open>A\<close> is delivered no change of a row of \<open>B\<close>.
\<close>

theorem tenant_isolation:
  assumes "A \<noteq> B"
  shows "(\<forall>r \<in> set (select_rows (tables w c) A since). congregation_id r \<noteq> Some B)
       \<and> requests (snd (pullFromSupabase w c A since)) = requests w @ [Select c A since]
       \<and> db (snd (pullFromSupabase w c A since)) c =
           (if select_fails w c = None
            then pull_docs (db w c) (select_rows (tables w c) A since)
            else db w c)
       \<and> (\<forall>x \<in> set (to_push w c A). congregation_id x \<noteq> Some B)
       \<and> requests (snd (pushToSupabase w c A)) =
           requests w @ (if to_push w c A = [] then [] else [Upsert c (to_push w c A)])
       \<and> (delivered (subscribeToChanges c A) chg \<longrightarrow> congregation_id (row chg) \<noteq> Some B)"
proof -
  have "\<forall>r \<in> set (select_rows (tables w c) A since). congregation_id r \<noteq> Some B"
    using assms select_rows_tenant by fastforce
  moreover have "\<forall>x \<in> set (to_push w c A). congregation_id x \<noteq> Some B"
    using assms to_push_tenant by fastforce
  moreover have "delivered (subscribeToChanges c A) chg \<longrightarrow> congregation_id (row chg) \<noteq> Some B"
    using assms by (simp add: delivered_def subscribeToChanges_def)
  ultimately show ?thesis
    by (simp add: pull_requests pull_db push_requests)
qed

theorem tenant_isolation_witness:
  "map doc_id (select_rows (tables two_tenant_world houses) ''A'' None) = [''r'']
   \<and> map doc_id (to_push two_tenant_world houses ''A'') = [''l'']
   \<and> requests (snd (pullFromSupabase two_tenant_world houses ''A'' None))
       = [Select houses ''A'' None]
   \<and> requests (snd (pushToSupabase two_tenant_world houses ''A''))
       = [Upsert houses [to_record (mk_doc ''l'' ''A'' 5 ''mine'')]]
   \<and> delivered (subscribeToChanges houses ''A'')
         \<lparr>change_table = houses, change_type = UPDATE, row = mk_doc ''r'' ''A'' 9 ''remote''\<rparr>
   \<and> \<not> delivered (subscribeToChanges houses ''A'')
         \<lparr>change_table = houses, change_type = UPDATE, row = mk_doc ''q'' ''B'' 7 ''other''\<rparr>"
  using tenant_isolation [of "''A''" "''B''" two_tenant_world houses None
      "\<lparr>change_table = houses, change_type = UPDATE, row = mk_doc ''r'' ''A'' 9 ''remote''\<rparr>"]
    tenant_isolation [of "''A''" "''B''" two_tenant_world houses None
      "\<lparr>change_table = houses, change_type = UPDATE, row = mk_doc ''q'' ''B'' 7 ''other''\<rparr>"]
  by (simp add: pull_requests push_requests pull_db two_tenant_world_def to_push_def
      delivered_def subscribeToChanges_def mk_world_def mk_collection_def mk_doc_def lookup_state_def
      initial_state_def select_rows_def order_by_updated_at_def gt_since_def
      find_by_congregation_def docsToSync_def)

section \<open>One cursor per collection, shared by all tenants\<close>

text \<open>
  C10. The replication state is keyed by the collection name alone. If a sync for
  tenant \<open>A\<close> leaves the cursor of a collection at \<open>t\<close>, then a following sync of the
  same collection for tenant \<open>B\<close> (on any local database) selects with \<open>since = t\<close> and
  pushes only documents updated after \<open>t\<close>, and a following push for \<open>B\<close> transmits
  only documents updated after \<open>t\<close>: rows and documents of \<open>B\<close> whose \<open>updated_at\<close>
  is not past \<open>t\<close> are skipped.
\<close>

theorem cursor_shared_by_tenants:
  assumes "lastSync (lookup_state (replicationStates (snd (syncCollection w c A))) c) = Some t"
    and "wB = (snd (syncCollection w c A))\<lparr>db := dbB\<rparr>"
  shows "let w1 = snd (pullFromSupabase wB c B (Some t)) in
           requests (snd (syncCollection wB c B)) =
             requests wB @ Select c B (Some t)
               # (if select_fails wB c = None \<and> to_push w1 c B \<noteq> []
                  then [Upsert c (to_push w1 c B)] else [])
         \<and> (\<forall>x \<in> set (to_push w1 c B). t < time_or_zero (updated_at x))
         \<and> (\<forall>r \<in> set (select_rows (tables wB c) B (Some t)).
               \<exists>u. updated_at r = Some u \<and> t < u)
         \<and> requests (snd (pushToSupabase wB c B)) =
             requests wB @ (if to_push wB c B = [] then [] else [Upsert c (to_push wB c B)])
         \<and> (\<forall>x \<in> set (to_push wB c B). t < time_or_zero (updated_at x))"
proof -
  have cur: "lastSync (lookup_state (replicationStates wB) c) = Some t"
    using assms by simp
  let ?w1 = "snd (pullFromSupabase wB c B (Some t))"
  have "requests (snd (syncCollection wB c B)) =
          requests wB @ Select c B (Some t)
            # (if select_fails wB c = None \<and> to_push ?w1 c B \<noteq> []
               then [Upsert c (to_push ?w1 c B)] else [])"
    using sync_requests [of wB c B] cur by simp
  moreover have "\<forall>x \<in> set (to_push ?w1 c B). t < time_or_zero (updated_at x)"
  proof
    fix x assume x: "x \<in> set (to_push ?w1 c B)"
    obtain t' where "lastSync (lookup_state (replicationStates ?w1) c) = Some t'" and "t \<le> t'"
      using pull_lastSync_advances [OF cur] by blast
    with x show "t < time_or_zero (updated_at x)"
      using to_push_since by fastforce
  qed
  moreover have "\<forall>r \<in> set (select_rows (tables wB c) B (Some t)).
                   \<exists>u. updated_at r = Some u \<and> t < u"
    using select_rows_since by blast
  moreover have "\<forall>x \<in> set (to_push wB c B). t < time_or_zero (updated_at x)"
    using to_push_since cur by blast
  ultimately show ?thesis
    unfolding Let_def by (simp add: push_requests)
qed

theorem cursor_shared_by_tenants_witness:
  "lastSync (lookup_state (replicationStates
      (snd (syncCollection two_tenant_world houses ''A''))) houses) = Some 9
   \<and> requests (snd (syncCollection
        ((snd (syncCollection two_tenant_world houses ''A''))\<lparr>db := tenant_B_db\<rparr>) houses ''B''))
     = requests (snd (syncCollection two_tenant_world houses ''A''))
       @ [Select houses ''B'' (Some 9), Upsert houses [to_record (mk_doc ''n'' ''B'' 15 ''fresh'')]]
   \<and> map doc_id (select_rows
         (tables ((snd (syncCollection two_tenant_world houses ''A''))\<lparr>db := tenant_B_db\<rparr>)
            houses) ''B'' (Some 9)) = [''s'']
   \<and> map doc_id (to_push ((snd (syncCollection two_tenant_world houses ''A''))\<lparr>db := tenant_B_db\<rparr>)
        houses ''B'') = [''n'']"
proof -
  have c: "lastSync (lookup_state (replicationStates
            (snd (syncCollection two_tenant_world houses ''A''))) houses) = Some 9"
    by (simp add: two_tenant_world_def eval_defs)
  show ?thesis
    using c cursor_shared_by_tenants [OF c refl, of tenant_B_db "''B''"]
    by (simp add: two_tenant_world_def tenant_B_db_def to_push_def eval_defs)
qed

end
